theory Spec2Isabelle
  imports Main "HOL-Library.AList" "HOL-Library.Sublist"
begin

section \<open>Python values and exceptions\<close>

text \<open>
  Every \<^verbatim>\<open>raise\<close> of the source, and every exception the interpreter or the SQL
  binding raises on the paths modelled here, is a value of \<open>exc\<close>; a fallible operation
  returns \<open>exc + 'a\<close> with \<open>Inl\<close> for the raised exception. The last three constructors
  are the classes that derive from \<^verbatim>\<open>BaseException\<close> but not from
  \<^verbatim>\<open>Exception\<close>, which an \<^verbatim>\<open>except Exception\<close> clause does not catch.
\<close>

datatype exc =
    NameError string
  | ValueError string
  | TypeError string
  | AttributeError string
  | KeyError string
  | OverflowError string
  | IOError string
  | SQLError string
  | KeyboardInterrupt
  | SystemExit
  | GeneratorExit

fun is_Exception :: "exc \<Rightarrow> bool" where
  "is_Exception KeyboardInterrupt = False"
| "is_Exception SystemExit = False"
| "is_Exception GeneratorExit = False"
| "is_Exception _ = True"

subsection \<open>Decimal text of integers\<close>

text \<open>
  The relational engine stores a number bound to a \<^verbatim>\<open>TEXT\<close> column as its decimal
  text, and Python's \<^verbatim>\<open>int(text)\<close> reads it back. \<open>int_of_string\<close> accepts the
  canonical decimal form only (the form \<open>string_of_int\<close> writes).
\<close>

definition digit_char :: "nat \<Rightarrow> char" where
  "digit_char d = char_of (48 + d)"

definition digit_val :: "char \<Rightarrow> nat option" where
  "digit_val c = (let k = (of_char c :: nat) in if 48 \<le> k \<and> k \<le> 57 then Some (k - 48) else None)"

function string_of_nat :: "nat \<Rightarrow> string" where
  "string_of_nat n =
     (if n < 10 then [digit_char n] else string_of_nat (n div 10) @ [digit_char (n mod 10)])"
  by pat_completeness auto
termination
  by (relation "measure (\<lambda>n. n)") auto

declare string_of_nat.simps [simp del]

definition string_of_int :: "int \<Rightarrow> string" where
  "string_of_int i = (if i < 0 then CHR ''-'' # string_of_nat (nat (- i)) else string_of_nat (nat i))"

fun nat_of_digits :: "nat \<Rightarrow> string \<Rightarrow> nat option" where
  "nat_of_digits acc [] = Some acc"
| "nat_of_digits acc (c # cs) =
     (case digit_val c of None \<Rightarrow> None | Some d \<Rightarrow> nat_of_digits (10 * acc + d) cs)"

definition nat_of_string :: "string \<Rightarrow> nat option" where
  "nat_of_string s = (if s = [] then None else nat_of_digits 0 s)"

definition int_of_string :: "string \<Rightarrow> int option" where
  "int_of_string s =
     (case s of
        [] \<Rightarrow> None
      | c # cs \<Rightarrow>
          if c = CHR ''-'' then map_option (\<lambda>n. - int n) (nat_of_string cs)
          else map_option int (nat_of_string s))"

section \<open>The catalog: data model\<close>

text \<open>
  Modelled from the spec: the class \<^verbatim>\<open>Accession\<close> (module \<^verbatim>\<open>minus80.Accession\<close>) is
  imported by \<^verbatim>\<open>Cohort.py\<close> but is not among the source files. It is the value object
  of the spec's glossary: a name, the associated files and the metadata, built by
  \<^verbatim>\<open>Accession(name, files=..., **metadata)\<close>. A metadata value is a text, or the
  integer identity that \<^verbatim>\<open>__getitem__\<close> stores under the key \<^verbatim>\<open>AID\<close>. The
  parameters of the constructor are taken to be \<^verbatim>\<open>self\<close>, \<^verbatim>\<open>name\<close> and
  \<^verbatim>\<open>files\<close>, as its two call sites in \<^verbatim>\<open>Cohort.py\<close> write them.
\<close>

datatype mval = MStr string | MInt int

record accession =
  acc_name :: string
  acc_files :: "string list"
  acc_metadata :: "(string \<times> mval) list"

definition Accession_parameters :: "string list" where
  "Accession_parameters = [''self'', ''name'', ''files'']"

text \<open>
  What a caller may pass where the source says \<^verbatim>\<open>name\<close>: a string (name or alias),
  an integer identity, or an Accession object.
\<close>

datatype ident = IStr string | IInt int | IAcc accession

text \<open>A value bound to a \<^verbatim>\<open>?\<close> of a query.\<close>

datatype param = PStr string | PInt int

text \<open>
  The tables of \<^verbatim>\<open>Cohort._initialize_tables\<close> and the \<^verbatim>\<open>globals\<close> table of
  \<^verbatim>\<open>Freezable.__init__\<close>, each as the list of its rows in the order a
  \<^verbatim>\<open>SELECT\<close> without \<^verbatim>\<open>ORDER BY\<close> returns them. \<open>AID_seq\<close> is the counter
  that \<^verbatim>\<open>AUTOINCREMENT\<close> keeps for \<^verbatim>\<open>accessions\<close>. Foreign keys are declared
  but not enforced by the engine (the source never switches enforcement on), so a row may
  name an identity that no accession has.
\<close>

record database =
  accessions :: "(int \<times> string) list"
  AID_seq :: int
  aliases :: "(string \<times> int) list"
  metadata :: "(int \<times> string \<times> string) list"
  raw_files :: "(int \<times> string) list"
  aid_files :: "(int \<times> int \<times> int option) list"
  globals :: "(string \<times> string option \<times> string) list"

text \<open>The transaction-control statements that the source executes.\<close>

datatype stmt =
    PragmaSynchronousOff
  | PragmaJournalMemory
  | Savepoint string
  | RollbackTo string
  | Release string

text \<open>
  A catalog object: the connection (the tables, the stack of open save-points with the
  tables as they were when each was opened, and the log of transaction-control statements
  executed so far), the memo table of \<^verbatim>\<open>lru_cache\<close> on \<^verbatim>\<open>_get_AID\<close> (most
  recently used first), and the warnings written to the logger.
\<close>

record cohort =
  db :: database
  savepoints :: "(string \<times> database) list"
  sql_log :: "stmt list"
  cache :: "(ident \<times> int) list"
  warnings :: "string list"

section \<open>Identity resolution\<close>

definition sql_param :: "ident \<Rightarrow> param" where
  "sql_param name = (case name of IAcc a \<Rightarrow> PStr (acc_name a) | IStr s \<Rightarrow> PStr s | IInt i \<Rightarrow> PInt i)"

definition param_text :: "param \<Rightarrow> string" where
  "param_text p = (case p of PStr s \<Rightarrow> s | PInt i \<Rightarrow> string_of_int i)"

text \<open>
  The three queries of \<^verbatim>\<open>_get_AID\<close>. A text parameter is compared with the texts of a
  column and an integer parameter with its integers; the engine's conversions between the
  two storage classes are not modelled.
\<close>

definition select_AID_by_name :: "database \<Rightarrow> param \<Rightarrow> int list" where
  "select_AID_by_name d p = map fst (filter (\<lambda>(aid, n). PStr n = p) (accessions d))"

definition select_AID_by_alias :: "database \<Rightarrow> param \<Rightarrow> int list" where
  "select_AID_by_alias d p = map snd (filter (\<lambda>(al, aid). PStr al = p) (aliases d))"

definition select_AID_by_AID :: "database \<Rightarrow> param \<Rightarrow> int list" where
  "select_AID_by_AID d p = map fst (filter (\<lambda>(aid, n). PInt aid = p) (accessions d))"

text \<open>
  The body of \<^verbatim>\<open>_get_AID\<close>: \<^verbatim>\<open>fetchone()[0]\<close> raises \<^verbatim>\<open>TypeError\<close> on no row,
  which the first two \<^verbatim>\<open>try\<close> blocks pass over and the third turns into
  \<^verbatim>\<open>NameError\<close>.
\<close>

definition lookup_AID :: "database \<Rightarrow> ident \<Rightarrow> exc + int" where
  "lookup_AID d name =
     (let p = sql_param name in
      case select_AID_by_name d p of
        aid # _ \<Rightarrow> Inr aid
      | [] \<Rightarrow>
         (case select_AID_by_alias d p of
            aid # _ \<Rightarrow> Inr aid
          | [] \<Rightarrow>
             (case select_AID_by_AID d p of
                aid # _ \<Rightarrow> Inr aid
              | [] \<Rightarrow> Inl (NameError (param_text p @ '' not in Cohort'')))))"

definition maxsize :: nat where
  "maxsize = 32768"

text \<open>
  \<^verbatim>\<open>_get_AID\<close> under \<^verbatim>\<open>lru_cache(maxsize=32768)\<close>: keyed by the argument as passed; a
  hit returns the stored identity and becomes the most recent entry; a miss runs the body,
  stores a returned identity (never a raised exception) and drops the least recent entry
  beyond \<open>maxsize\<close>.
\<close>

definition get_AID :: "cohort \<Rightarrow> ident \<Rightarrow> (exc + int) \<times> cohort" where
  "get_AID st name =
     (case map_of (cache st) name of
        Some aid \<Rightarrow> (Inr aid, st\<lparr>cache := (name, aid) # filter (\<lambda>(k, v). k \<noteq> name) (cache st)\<rparr>)
      | None \<Rightarrow>
         (case lookup_AID (db st) name of
            Inl e \<Rightarrow> (Inl e, st)
          | Inr aid \<Rightarrow> (Inr aid, st\<lparr>cache := take maxsize ((name, aid) # cache st)\<rparr>)))"

text \<open>The decorator \<^verbatim>\<open>invalidates_cache\<close>: run the method, then clear the memo table;
  the wrapper returns nothing, and an exception of the method leaves the table as it is.\<close>

definition invalidates_cache ::
  "(cohort \<Rightarrow> (exc + 'a) \<times> cohort) \<Rightarrow> cohort \<Rightarrow> (exc + unit) \<times> cohort" where
  "invalidates_cache fn st =
     (case fn st of
        (Inl e, st') \<Rightarrow> (Inl e, st')
      | (Inr _, st') \<Rightarrow> (Inr (), st'\<lparr>cache := []\<rparr>))"

section \<open>Collection protocol\<close>

text \<open>The view \<^verbatim>\<open>files\<close>: \<^verbatim>\<open>aid_files JOIN raw_files ON aid_files.FID = raw_files.FID\<close>.\<close>

definition files_view :: "database \<Rightarrow> (int \<times> string \<times> int option) list" where
  "files_view d =
     concat (map (\<lambda>(aid, fid, verified).
                    map (\<lambda>(fid', path). (aid, path, verified))
                        (filter (\<lambda>(fid', path). fid' = fid) (raw_files d)))
                 (aid_files d))"

text \<open>A dict comprehension over rows: a later row replaces the value of an equal key.\<close>

definition dict_of_rows :: "(string \<times> string) list \<Rightarrow> (string \<times> mval) list" where
  "dict_of_rows rows = foldl (\<lambda>d (k, v). AList.update k (MStr v) d) [] rows"

text \<open>
  \<^verbatim>\<open>Cohort.__getitem__\<close>. Unpacking \<^verbatim>\<open>fetchone()\<close> raises \<^verbatim>\<open>TypeError\<close> when no
  accession has the resolved identity. The call \<^verbatim>\<open>Accession(name, files=files, **metadata)\<close>
  raises \<^verbatim>\<open>TypeError\<close> when a metadata key repeats a parameter of the constructor.
\<close>

definition getitem :: "cohort \<Rightarrow> ident \<Rightarrow> (exc + accession) \<times> cohort" where
  "getitem st name =
     (case get_AID st name of
        (Inl e, st') \<Rightarrow> (Inl e, st')
      | (Inr AID, st') \<Rightarrow>
         (case filter (\<lambda>(aid, n). aid = AID) (accessions (db st')) of
            [] \<Rightarrow> (Inl (TypeError ''cannot unpack non-iterable NoneType object''), st')
          | (_, nm) # _ \<Rightarrow>
             (let md = dict_of_rows
                         (map snd (filter (\<lambda>(aid, k, v). aid = AID) (metadata (db st'))));
                  md' = AList.update ''AID'' (MInt AID) md;
                  files = map (\<lambda>(aid, path, verified). path)
                            (filter (\<lambda>(aid, path, verified). aid = AID) (files_view (db st')))
              in if list_ex (\<lambda>k. k \<in> set Accession_parameters) (map fst md')
                 then (Inl (TypeError ''got multiple values for keyword argument''), st')
                 else (Inr \<lparr>acc_name = nm, acc_files = files, acc_metadata = md'\<rparr>, st'))))"

text \<open>\<^verbatim>\<open>Cohort.__len__\<close>.\<close>

definition len :: "cohort \<Rightarrow> int" where
  "len st = int (length (accessions (db st)))"

text \<open>\<^verbatim>\<open>Cohort.__delitem__\<close>, first the method as written, then as decorated.\<close>

definition delitem_body :: "cohort \<Rightarrow> ident \<Rightarrow> (exc + unit) \<times> cohort" where
  "delitem_body st name =
     (case get_AID st name of
        (Inl e, st') \<Rightarrow> (Inl e, st')
      | (Inr AID, st') \<Rightarrow>
          (Inr (), st'\<lparr>db := (db st')
             \<lparr>accessions := filter (\<lambda>(aid, n). aid \<noteq> AID) (accessions (db st')),
              metadata := filter (\<lambda>(aid, k, v). aid \<noteq> AID) (metadata (db st')),
              aid_files := filter (\<lambda>(aid, fid, verified). aid \<noteq> AID) (aid_files (db st'))\<rparr>\<rparr>))"

definition delitem :: "cohort \<Rightarrow> ident \<Rightarrow> (exc + unit) \<times> cohort" where
  "delitem st name = invalidates_cache (\<lambda>s. delitem_body s name) st"


section \<open>The scoped bulk transaction\<close>

text \<open>
  The engine's save-point statements on the stack of open save-points (newest first).
  \<^verbatim>\<open>SAVEPOINT\<close> pushes the current tables; \<^verbatim>\<open>ROLLBACK TO\<close> restores the tables of
  the newest save-point of that name and leaves it open; \<^verbatim>\<open>RELEASE\<close> closes it together
  with every save-point opened after it and keeps the tables. Both fail when no save-point
  of that name is open. The two pragmas change no table. The source never executes
  \<^verbatim>\<open>BEGIN\<close>, so a transaction is open exactly while a save-point is open, and inside a
  transaction the engine refuses to change the synchronous setting.
\<close>

definition exec_pragma_synchronous_off :: "cohort \<Rightarrow> (exc + unit) \<times> cohort" where
  "exec_pragma_synchronous_off st =
     (if savepoints st \<noteq> []
      then (Inl (SQLError ''Safety level may not be changed inside a transaction''), st)
      else (Inr (), st\<lparr>sql_log := sql_log st @ [PragmaSynchronousOff]\<rparr>))"

definition exec_pragma_journal_memory :: "cohort \<Rightarrow> cohort" where
  "exec_pragma_journal_memory st = st\<lparr>sql_log := sql_log st @ [PragmaJournalMemory]\<rparr>"

definition exec_savepoint :: "string \<Rightarrow> cohort \<Rightarrow> cohort" where
  "exec_savepoint sp st =
     st\<lparr>savepoints := (sp, db st) # savepoints st, sql_log := sql_log st @ [Savepoint sp]\<rparr>"

definition exec_rollback_to :: "string \<Rightarrow> cohort \<Rightarrow> (exc + unit) \<times> cohort" where
  "exec_rollback_to sp st =
     (case dropWhile (\<lambda>(n, d). n \<noteq> sp) (savepoints st) of
        [] \<Rightarrow> (Inl (SQLError ''no such savepoint''), st)
      | (n, d) # older \<Rightarrow>
          (Inr (), st\<lparr>db := d, savepoints := (n, d) # older,
                       sql_log := sql_log st @ [RollbackTo sp]\<rparr>))"

definition exec_release :: "string \<Rightarrow> cohort \<Rightarrow> (exc + unit) \<times> cohort" where
  "exec_release sp st =
     (case dropWhile (\<lambda>(n, d). n \<noteq> sp) (savepoints st) of
        [] \<Rightarrow> (Inl (SQLError ''no such savepoint''), st)
      | (n, d) # older \<Rightarrow>
          (Inr (), st\<lparr>savepoints := older, sql_log := sql_log st @ [Release sp]\<rparr>))"

text \<open>The \<^verbatim>\<open>finally\<close> clause: an exception of the release replaces the pending outcome.\<close>

definition finally_release :: "(exc + 'a) \<Rightarrow> cohort \<Rightarrow> (exc + 'a) \<times> cohort" where
  "finally_release outcome st =
     (case exec_release ''bulk_transaction'' st of
        (Inl e, st') \<Rightarrow> (Inl e, st')
      | (Inr _, st') \<Rightarrow> (outcome, st'))"

text \<open>The statements before the \<^verbatim>\<open>yield\<close>; an exception here leaves the block
  unentered.\<close>

definition bulk_transaction_enter :: "cohort \<Rightarrow> (exc + unit) \<times> cohort" where
  "bulk_transaction_enter st =
     (case exec_pragma_synchronous_off st of
        (Inl e, st1) \<Rightarrow> (Inl e, st1)
      | (Inr _, st1) \<Rightarrow>
          (Inr (), exec_savepoint ''bulk_transaction'' (exec_pragma_journal_memory st1)))"

text \<open>
  \<^verbatim>\<open>Freezable.bulk_transaction\<close> around the body of a \<^verbatim>\<open>with\<close> block. The handler is
  \<^verbatim>\<open>except Exception\<close>: it rolls back and re-raises for an instance of
  \<^verbatim>\<open>Exception\<close> only; the \<^verbatim>\<open>finally\<close> clause runs on every path.
\<close>

definition bulk_transaction ::
  "(cohort \<Rightarrow> (exc + 'a) \<times> cohort) \<Rightarrow> cohort \<Rightarrow> (exc + 'a) \<times> cohort" where
  "bulk_transaction body st =
     (case bulk_transaction_enter st of
        (Inl e, st3) \<Rightarrow> (Inl e, st3)
      | (Inr _, st3) \<Rightarrow>
          (case body st3 of
             (Inr v, st4) \<Rightarrow> finally_release (Inr v) st4
           | (Inl e, st4) \<Rightarrow>
               if is_Exception e then
                 (case exec_rollback_to ''bulk_transaction'' st4 of
                    (Inl e', st5) \<Rightarrow> finally_release (Inl e') st5
                  | (Inr _, st5) \<Rightarrow> finally_release (Inl e) st5)
               else finally_release (Inl e) st4))"



section \<open>Attribute lookup on a catalog object\<close>

text \<open>
  The names that \<^verbatim>\<open>class Freezable\<close> and \<^verbatim>\<open>class Cohort\<close> define, and the attributes
  that their \<^verbatim>\<open>__init__\<close> methods assign.
\<close>

definition Freezable_names :: "string list" where
  "Freezable_names =
     [''__init__'', ''bulk_transaction'', ''_get_dbpath'', ''_dbfilename'', ''_sqlite'',
      ''_bcolz_array'', ''_bcolz'', ''_tmpfile'', ''_dict'', ''guess_type'']"

definition Cohort_names :: "string list" where
  "Cohort_names =
     [''__init__'', ''columns'', ''names'', ''files'', ''_AID_mapping'', ''as_DataFrame'',
      ''random_accession'', ''random_accessions'', ''add_accessions'', ''add_accession'',
      ''add_accessions_from_data_frame'', ''alias_column'', ''drop_aliases'',
      ''assimilate_files'', ''search_names'', ''crawl_files'', ''add_raw_file'', ''__repr__'',
      ''__delitem__'', ''__getitem__'', ''__len__'', ''__iter__'', ''__contains__'',
      ''_initialize_tables'', ''_get_AID'', ''from_yaml'', ''from_accessions'']"

definition Freezable_instance_names :: "string list" where
  "Freezable_instance_names =
     [''_m80_name'', ''_m80_dtype'', ''_children'', ''_basedir'', ''_parent'', ''_db'']"

definition Cohort_instance_names :: "string list" where
  "Cohort_instance_names = Freezable_instance_names @ [''name'', ''log'']"

text \<open>
  The context managers among them, by attribute name. \<^verbatim>\<open>self.n()\<close> raises
  \<^verbatim>\<open>AttributeError\<close> for a name \<open>n\<close> that neither the instance nor a class defines.
\<close>

definition context_manager ::
  "string \<Rightarrow> ((cohort \<Rightarrow> (exc + 'a) \<times> cohort) \<Rightarrow> cohort \<Rightarrow> (exc + 'a) \<times> cohort) option" where
  "context_manager n = (if n = ''bulk_transaction'' then Some bulk_transaction else None)"

section \<open>Catalog operations\<close>

subsection \<open>Single statements\<close>

text \<open>\<^verbatim>\<open>INSERT OR IGNORE INTO accessions (name) VALUES (?)\<close>: the name is unique; a new
  row takes the identity after the largest one ever used.\<close>

definition insert_or_ignore_accession :: "string \<Rightarrow> database \<Rightarrow> database" where
  "insert_or_ignore_accession nm d =
     (if nm \<in> set (map snd (accessions d)) then d
      else let aid = max (AID_seq d) (foldr max (map fst (accessions d)) 0) + 1
           in d\<lparr>accessions := accessions d @ [(aid, nm)], AID_seq := aid\<rparr>)"

text \<open>\<^verbatim>\<open>INSERT OR REPLACE INTO metadata (AID, key, val)\<close>: the triple is unique; an equal
  row is deleted and the new row is added.\<close>

definition insert_or_replace_metadata :: "int \<times> string \<times> string \<Rightarrow> database \<Rightarrow> database" where
  "insert_or_replace_metadata row d =
     d\<lparr>metadata := filter (\<lambda>r. r \<noteq> row) (metadata d) @ [row]\<rparr>"

text \<open>\<^verbatim>\<open>INSERT OR IGNORE INTO raw_files (path) VALUES (?)\<close>: the path is unique; a new
  row takes the identity after the largest one in the table.\<close>

definition insert_or_ignore_raw_file :: "string \<Rightarrow> database \<Rightarrow> database" where
  "insert_or_ignore_raw_file path d =
     (if path \<in> set (map snd (raw_files d)) then d
      else d\<lparr>raw_files := raw_files d @ [(foldr max (map fst (raw_files d)) 0 + 1, path)]\<rparr>)"

text \<open>
  \<^verbatim>\<open>INSERT OR REPLACE INTO files (AID, path)\<close> on the view, through the trigger
  \<^verbatim>\<open>assign_FID\<close>. The conflict policy of the statement that fires a trigger governs
  the statements of the trigger: a raw file of the same path is deleted and the path is
  inserted as a new row; then one link row is written per raw file of that path, replacing
  a link with the same \<^verbatim>\<open>(AID, FID)\<close>. The column \<^verbatim>\<open>verified\<close> is not given, so
  the link carries \<^verbatim>\<open>NULL\<close>.
\<close>

definition insert_or_replace_file :: "int \<times> string \<Rightarrow> database \<Rightarrow> database" where
  "insert_or_replace_file row d =
     (let (aid, path) = row;
          others = filter (\<lambda>(fid, p). p \<noteq> path) (raw_files d);
          d1 = d\<lparr>raw_files := others @ [(foldr max (map fst others) 0 + 1, path)]\<rparr>;
          fids = map fst (filter (\<lambda>(fid, p). p = path) (raw_files d1))
      in foldl (\<lambda>d2 fid. d2\<lparr>aid_files :=
                   filter (\<lambda>(a, f, v). \<not> (a = aid \<and> f = fid)) (aid_files d2) @ [(aid, fid, None)]\<rparr>)
           d1 fids)"

text \<open>\<^verbatim>\<open>INSERT INTO aliases (alias, AID)\<close>: the alias is unique, and a plain insert of a
  known alias fails.\<close>

definition insert_alias :: "string \<times> int \<Rightarrow> database \<Rightarrow> exc + database" where
  "insert_alias row d =
     (if fst row \<in> set (map fst (aliases d))
      then Inl (SQLError ''UNIQUE constraint failed: aliases.alias'')
      else Inr (d\<lparr>aliases := aliases d @ [row]\<rparr>))"

fun insert_aliases :: "(string \<times> int) list \<Rightarrow> database \<Rightarrow> exc + database" where
  "insert_aliases [] d = Inr d"
| "insert_aliases (row # rows) d =
     (case insert_alias row d of Inl e \<Rightarrow> Inl e | Inr d' \<Rightarrow> insert_aliases rows d')"

definition text_of_mval :: "mval \<Rightarrow> string" where
  "text_of_mval v = (case v of MStr s \<Rightarrow> s | MInt i \<Rightarrow> string_of_int i)"

subsection \<open>Adding one accession\<close>

text \<open>The body of the \<^verbatim>\<open>with\<close> block of \<^verbatim>\<open>Cohort.add_accession\<close>.\<close>

definition add_accession_block :: "accession \<Rightarrow> cohort \<Rightarrow> (exc + unit) \<times> cohort" where
  "add_accession_block a st =
     (let st1 = st\<lparr>db := insert_or_ignore_accession (acc_name a) (db st)\<rparr> in
      case get_AID st1 (IAcc a) of
        (Inl e, st2) \<Rightarrow> (Inl e, st2)
      | (Inr AID, st2) \<Rightarrow>
          (let d3 = foldl (\<lambda>d (k, v). insert_or_replace_metadata (AID, k, text_of_mval v) d)
                      (db st2) (acc_metadata a);
               d4 = foldl (\<lambda>d file. insert_or_ignore_raw_file file d) d3 (acc_files a)
           in (Inr (), st2\<lparr>db := d4\<rparr>)))"

text \<open>\<^verbatim>\<open>add_accession\<close> with the context manager it enters given as \<open>cm\<close>.\<close>

definition add_accession_with ::
  "((cohort \<Rightarrow> (exc + unit) \<times> cohort) \<Rightarrow> cohort \<Rightarrow> (exc + unit) \<times> cohort)
     \<Rightarrow> cohort \<Rightarrow> accession \<Rightarrow> (exc + accession) \<times> cohort" where
  "add_accession_with cm st a =
     (case cm (add_accession_block a) st of
        (Inl e, st') \<Rightarrow> (Inl e, st')
      | (Inr _, st') \<Rightarrow> getitem st' (IAcc a))"

text \<open>\<^verbatim>\<open>Cohort.add_accession\<close> as written: it enters \<^verbatim>\<open>self._bulk_transaction()\<close>.\<close>

definition add_accession :: "cohort \<Rightarrow> accession \<Rightarrow> (exc + accession) \<times> cohort" where
  "add_accession st a =
     (case context_manager ''_bulk_transaction'' of
        None \<Rightarrow> (Inl (AttributeError ''_bulk_transaction''), st)
      | Some cm \<Rightarrow> add_accession_with cm st a)"

subsection \<open>Iteration and bulk insertion\<close>

text \<open>\<^verbatim>\<open>self[x]\<close> for every \<open>x\<close> of a list, stopping at the first exception.\<close>

fun getitems :: "cohort \<Rightarrow> ident list \<Rightarrow> (exc + accession list) \<times> cohort" where
  "getitems st [] = (Inr [], st)"
| "getitems st (n # ns) =
     (case getitem st n of
        (Inl e, st') \<Rightarrow> (Inl e, st')
      | (Inr a, st') \<Rightarrow>
          (case getitems st' ns of
             (Inl e, st'') \<Rightarrow> (Inl e, st'')
           | (Inr as, st'') \<Rightarrow> (Inr (a # as), st'')))"

text \<open>\<^verbatim>\<open>Cohort.__iter__\<close>, consumed to the end.\<close>

definition iter :: "cohort \<Rightarrow> (exc + accession list) \<times> cohort" where
  "iter st = getitems st (map (\<lambda>(aid, n). IStr n) (accessions (db st)))"

text \<open>The property \<^verbatim>\<open>_AID_mapping\<close>: \<^verbatim>\<open>{x.name: x['AID'] for x in self}\<close>.\<close>

fun AID_entries :: "accession list \<Rightarrow> exc + (string \<times> int) list" where
  "AID_entries [] = Inr []"
| "AID_entries (x # xs) =
     (case map_of (acc_metadata x) ''AID'' of
        Some (MInt aid) \<Rightarrow>
          (case AID_entries xs of Inl e \<Rightarrow> Inl e | Inr es \<Rightarrow> Inr ((acc_name x, aid) # es))
      | _ \<Rightarrow> Inl (KeyError ''AID''))"

definition AID_mapping :: "cohort \<Rightarrow> (exc + (string \<times> int) list) \<times> cohort" where
  "AID_mapping st =
     (case iter st of
        (Inl e, st') \<Rightarrow> (Inl e, st')
      | (Inr xs, st') \<Rightarrow>
          (case AID_entries xs of
             Inl e \<Rightarrow> (Inl e, st')
           | Inr es \<Rightarrow> (Inr (foldl (\<lambda>d (k, v). AList.update k v d) [] es), st')))"

text \<open>The rows that the two generators of \<^verbatim>\<open>add_accessions\<close> yield;
  \<^verbatim>\<open>AID_map[accession.name]\<close> raises \<^verbatim>\<open>KeyError\<close> for an unknown name.\<close>

fun metadata_rows ::
  "(string \<times> int) list \<Rightarrow> accession list \<Rightarrow> exc + (int \<times> string \<times> string) list" where
  "metadata_rows m [] = Inr []"
| "metadata_rows m (a # as) =
     (case map_of m (acc_name a) of
        None \<Rightarrow> (if acc_metadata a = [] then metadata_rows m as else Inl (KeyError (acc_name a)))
      | Some aid \<Rightarrow>
          (case metadata_rows m as of
             Inl e \<Rightarrow> Inl e
           | Inr rows \<Rightarrow> Inr (map (\<lambda>(k, v). (aid, k, text_of_mval v)) (acc_metadata a) @ rows)))"

fun file_rows :: "(string \<times> int) list \<Rightarrow> accession list \<Rightarrow> exc + (int \<times> string) list" where
  "file_rows m [] = Inr []"
| "file_rows m (a # as) =
     (case map_of m (acc_name a) of
        None \<Rightarrow> (if acc_files a = [] then file_rows m as else Inl (KeyError (acc_name a)))
      | Some aid \<Rightarrow>
          (case file_rows m as of
             Inl e \<Rightarrow> Inl e
           | Inr rows \<Rightarrow> Inr (map (\<lambda>file. (aid, file)) (acc_files a) @ rows)))"

text \<open>The body of the \<^verbatim>\<open>with\<close> block of \<^verbatim>\<open>Cohort.add_accessions\<close>.\<close>

definition add_accessions_block :: "accession list \<Rightarrow> cohort \<Rightarrow> (exc + unit) \<times> cohort" where
  "add_accessions_block as st =
     (let st1 = st\<lparr>db := foldl (\<lambda>d a. insert_or_ignore_accession (acc_name a) d) (db st) as\<rparr> in
      case AID_mapping st1 of
        (Inl e, st2) \<Rightarrow> (Inl e, st2)
      | (Inr AID_map, st2) \<Rightarrow>
          (case metadata_rows AID_map as of
             Inl e \<Rightarrow> (Inl e, st2)
           | Inr mrows \<Rightarrow>
               (let d3 = foldl (\<lambda>d row. insert_or_replace_metadata row d) (db st2) mrows in
                case file_rows AID_map as of
                  Inl e \<Rightarrow> (Inl e, st2\<lparr>db := d3\<rparr>)
                | Inr frows \<Rightarrow>
                    (Inr (), st2\<lparr>db := foldl (\<lambda>d row. insert_or_replace_file row d) d3 frows\<rparr>))))"

definition add_accessions_with ::
  "((cohort \<Rightarrow> (exc + unit) \<times> cohort) \<Rightarrow> cohort \<Rightarrow> (exc + unit) \<times> cohort)
     \<Rightarrow> cohort \<Rightarrow> accession list \<Rightarrow> (exc + accession list) \<times> cohort" where
  "add_accessions_with cm st as =
     (case cm (add_accessions_block as) st of
        (Inl e, st') \<Rightarrow> (Inl e, st')
      | (Inr _, st') \<Rightarrow> getitems st' (map IAcc as))"

text \<open>\<^verbatim>\<open>Cohort.add_accessions\<close> as written.\<close>

definition add_accessions :: "cohort \<Rightarrow> accession list \<Rightarrow> (exc + accession list) \<times> cohort" where
  "add_accessions st as =
     (case context_manager ''_bulk_transaction'' of
        None \<Rightarrow> (Inl (AttributeError ''_bulk_transaction''), st)
      | Some cm \<Rightarrow> add_accessions_with cm st as)"

subsection \<open>Search\<close>

text \<open>
  The engine's \<^verbatim>\<open>LIKE\<close> without an escape character: \<^verbatim>\<open>%\<close> in the pattern matches
  any run of characters, \<^verbatim>\<open>_\<close> matches any one character, and any other character
  matches itself up to the case of the ASCII letters.
\<close>

definition lower_ascii :: "char \<Rightarrow> char" where
  "lower_ascii c =
     (case map_of (zip ''ABCDEFGHIJKLMNOPQRSTUVWXYZ'' ''abcdefghijklmnopqrstuvwxyz'') c of
        Some l \<Rightarrow> l
      | None \<Rightarrow> c)"

fun like :: "string \<Rightarrow> string \<Rightarrow> bool" where
  "like [] [] = True"
| "like [] (c # cs) = False"
| "like (p # ps) [] = (p = CHR ''%'' \<and> like ps [])"
| "like (p # ps) (c # cs) =
     (if p = CHR ''%'' then like ps (c # cs) \<or> like (p # ps) cs
      else (p = CHR ''_'' \<or> lower_ascii p = lower_ascii c) \<and> like ps cs)"

text \<open>\<^verbatim>\<open>Cohort.search_names\<close> and the property \<^verbatim>\<open>names\<close>.\<close>

definition search_names :: "cohort \<Rightarrow> string \<Rightarrow> string list" where
  "search_names st name =
     (let pat = ''%'' @ name @ ''%'' in
      map snd (filter (\<lambda>(aid, n). like pat n) (accessions (db st)))
      @ map fst (filter (\<lambda>(al, aid). like pat al) (aliases (db st))))"

definition names :: "cohort \<Rightarrow> string list" where
  "names st = search_names st ''%''"

subsection \<open>Aliases\<close>

text \<open>\<^verbatim>\<open>Counter\<close> of a list: every distinct element with its number of occurrences, in the
  order of first occurrence.\<close>

definition Counter :: "string list \<Rightarrow> (string \<times> nat) list" where
  "Counter xs = map (\<lambda>x. (x, count_list xs x)) (rev (remdups (rev xs)))"

text \<open>The loop of \<^verbatim>\<open>alias_column\<close> over \<^verbatim>\<open>alias_counts.items()\<close>: the accepted pairs and
  the warnings, in order.\<close>

fun unique_aliases ::
  "(string \<times> int) list \<Rightarrow> string list \<Rightarrow> int \<Rightarrow> (string \<times> nat) list
     \<Rightarrow> exc + ((string \<times> int) list \<times> string list)" where
  "unique_aliases alias_dict cur_names min_alias_length [] = Inr ([], [])"
| "unique_aliases alias_dict cur_names min_alias_length ((alias, count) # rest) =
     (if count > 1 \<or> alias \<in> set cur_names then
        (case unique_aliases alias_dict cur_names min_alias_length rest of
           Inl e \<Rightarrow> Inl e
         | Inr (u, w) \<Rightarrow> Inr (u, (''Cannot use '' @ alias @ '' as it is not unique'') # w))
      else if int (length alias) < min_alias_length then
        (case unique_aliases alias_dict cur_names min_alias_length rest of
           Inl e \<Rightarrow> Inl e
         | Inr (u, w) \<Rightarrow>
             Inr (u, (''Skipping '' @ alias @ '' as it is too short (<''
                        @ string_of_int min_alias_length @ '')'') # w))
      else
        (case map_of alias_dict alias of
           None \<Rightarrow> Inl (KeyError alias)
         | Some aid \<Rightarrow>
             (case unique_aliases alias_dict cur_names min_alias_length rest of
                Inl e \<Rightarrow> Inl e
              | Inr (u, w) \<Rightarrow> Inr ((alias, aid) # u, w))))"

text \<open>The body of the \<^verbatim>\<open>with\<close> block of \<^verbatim>\<open>Cohort.alias_column\<close>; \<open>cur_names\<close> is read
  before the block is entered.\<close>

definition alias_column_block ::
  "string \<Rightarrow> int \<Rightarrow> string list \<Rightarrow> cohort \<Rightarrow> (exc + unit) \<times> cohort" where
  "alias_column_block colname min_alias_length cur_names st =
     (let rows = map (\<lambda>(aid, k, v). (v, aid))
                   (filter (\<lambda>(aid, k, v). k = colname) (metadata (db st)));
          alias_dict = foldl (\<lambda>d (a, aid). AList.update a aid d) [] rows;
          alias_counts = Counter (map fst alias_dict)
      in case unique_aliases alias_dict cur_names min_alias_length alias_counts of
           Inl e \<Rightarrow> (Inl e, st)
         | Inr (u, w) \<Rightarrow>
             (case insert_aliases u (db st) of
                Inl e \<Rightarrow> (Inl e, st\<lparr>warnings := warnings st @ w\<rparr>)
              | Inr d \<Rightarrow> (Inr (), st\<lparr>db := d, warnings := warnings st @ w\<rparr>)))"

definition alias_column_with ::
  "((cohort \<Rightarrow> (exc + unit) \<times> cohort) \<Rightarrow> cohort \<Rightarrow> (exc + unit) \<times> cohort)
     \<Rightarrow> cohort \<Rightarrow> string \<Rightarrow> int \<Rightarrow> (exc + unit) \<times> cohort" where
  "alias_column_with cm st colname min_alias_length =
     cm (alias_column_block colname min_alias_length (names st)) st"

text \<open>\<^verbatim>\<open>Cohort.alias_column\<close> as written. It carries no \<^verbatim>\<open>invalidates_cache\<close>.\<close>

definition alias_column :: "cohort \<Rightarrow> string \<Rightarrow> int \<Rightarrow> (exc + unit) \<times> cohort" where
  "alias_column st colname min_alias_length =
     (case context_manager ''_bulk_transaction'' of
        None \<Rightarrow> (Inl (AttributeError ''_bulk_transaction''), st)
      | Some cm \<Rightarrow> alias_column_with cm st colname min_alias_length)"

text \<open>\<^verbatim>\<open>Cohort.drop_aliases\<close>, decorated with \<^verbatim>\<open>invalidates_cache\<close>.\<close>

definition drop_aliases :: "cohort \<Rightarrow> (exc + unit) \<times> cohort" where
  "drop_aliases st =
     invalidates_cache (\<lambda>s. (Inr (), s\<lparr>db := (db s)\<lparr>aliases := []\<rparr>\<rparr>)) st"

subsection \<open>Sampling\<close>

text \<open>
  \<^verbatim>\<open>Cohort.random_accession\<close>; \<open>r\<close> is the engine's random choice, the row taken being
  row \<open>r mod\<close> the number of rows. With no row, \<^verbatim>\<open>fetchone()\<close> is \<^verbatim>\<open>None\<close> and the
  subscript raises \<^verbatim>\<open>TypeError\<close>.
\<close>

definition random_accession :: "cohort \<Rightarrow> nat \<Rightarrow> (exc + accession) \<times> cohort" where
  "random_accession st r =
     (case accessions (db st) of
        [] \<Rightarrow> (Inl (TypeError ''NoneType object is not subscriptable''), st)
      | row # rows \<Rightarrow>
          getitem st (IStr (snd ((row # rows) ! (r mod length (row # rows))))))"

text \<open>
  \<^verbatim>\<open>Cohort.random_accessions\<close> returns a generator: either over the names that the
  query has selected (\<open>shuffle\<close> is the engine's random order, a negative \<^verbatim>\<open>LIMIT\<close> is
  no limit), or \<open>n\<close> calls of \<^verbatim>\<open>random_accession\<close>. Nothing is fetched until the
  generator is consumed.
\<close>

datatype sampler = DrawNames "string list" | DrawRandom int

definition random_accessions ::
  "cohort \<Rightarrow> int \<Rightarrow> bool \<Rightarrow> (string list \<Rightarrow> string list) \<Rightarrow> exc + sampler" where
  "random_accessions st n replace shuffle =
     (if \<not> replace then
        if n > len st then
          Inl (ValueError (''Only '' @ string_of_int (len st)
                 @ '' accessions in cohort. Cannot get {n} samples. See replace parameter in help.''))
        else let ns = shuffle (map snd (accessions (db st)))
             in Inr (DrawNames (if n < 0 then ns else take (nat n) ns))
      else Inr (DrawRandom n))"

fun draw_random :: "(nat \<Rightarrow> nat) \<Rightarrow> nat \<Rightarrow> nat \<Rightarrow> cohort \<Rightarrow> (exc + accession list) \<times> cohort" where
  "draw_random rnd i 0 st = (Inr [], st)"
| "draw_random rnd i (Suc k) st =
     (case random_accession st (rnd i) of
        (Inl e, st') \<Rightarrow> (Inl e, st')
      | (Inr a, st') \<Rightarrow>
          (case draw_random rnd (Suc i) k st' of
             (Inl e, st'') \<Rightarrow> (Inl e, st'')
           | (Inr as, st'') \<Rightarrow> (Inr (a # as), st'')))"

text \<open>Consuming the generator to the end (\<^verbatim>\<open>list(...)\<close>); \<open>rnd i\<close> is the random choice of
  draw \<open>i\<close>.\<close>

definition consume :: "(nat \<Rightarrow> nat) \<Rightarrow> sampler \<Rightarrow> cohort \<Rightarrow> (exc + accession list) \<times> cohort" where
  "consume rnd g st =
     (case g of
        DrawNames ns \<Rightarrow> getitems st (map IStr ns)
      | DrawRandom n \<Rightarrow> draw_random rnd 0 (nat n) st)"

text \<open>
  Two conditions on a catalog under which \<^verbatim>\<open>self[name]\<close> succeeds for a stored name:
  every identity in the memo table is the identity of a stored accession, and no metadata
  row has a parameter of the constructor as its key.
\<close>

definition cache_sound :: "cohort \<Rightarrow> bool" where
  "cache_sound st =
     list_all (\<lambda>(k, aid). aid \<in> set (map fst (accessions (db st)))) (cache st)"

definition no_parameter_key :: "cohort \<Rightarrow> bool" where
  "no_parameter_key st =
     list_all (\<lambda>(aid, k, v). k \<notin> set Accession_parameters) (metadata (db st))"

section \<open>The key-value store\<close>

text \<open>
  A value passed to \<^verbatim>\<open>_dict\<close>: an \<^verbatim>\<open>int\<close> (unbounded), a \<^verbatim>\<open>float\<close>, a \<^verbatim>\<open>str\<close>,
  or an object of any other class, given by the module path and the name of its class.
  Floats are a type parameter: the two conversions between a float and its text are
  arguments of the operations below (\<open>render\<close> is the engine's, with no text for a value
  that it stores as \<^verbatim>\<open>NULL\<close>; \<open>parse\<close> is Python's \<^verbatim>\<open>float(text)\<close>).
\<close>

datatype 'f pyval = PyInt int | PyFloat 'f | PyStr string | PyObj "string list" string

text \<open>\<^verbatim>\<open>Freezable.guess_type\<close>: the last component of the dotted class name.\<close>

definition guess_type :: "'f pyval \<Rightarrow> string" where
  "guess_type v =
     (case v of
        PyInt i \<Rightarrow> ''int''
      | PyFloat f \<Rightarrow> ''float''
      | PyStr s \<Rightarrow> ''str''
      | PyObj modpath cls \<Rightarrow> last (modpath @ [cls]))"

text \<open>
  Binding a value to the \<^verbatim>\<open>TEXT\<close> column \<^verbatim>\<open>val\<close>: the binding takes integers of 64
  bits and raises \<^verbatim>\<open>OverflowError\<close> beyond; it raises \<^verbatim>\<open>TypeError\<close> for an object it
  cannot bind; the column stores a number as text.
\<close>

definition bind_val :: "('f \<Rightarrow> string option) \<Rightarrow> 'f pyval \<Rightarrow> exc + string option" where
  "bind_val render v =
     (case v of
        PyInt i \<Rightarrow>
          if - 9223372036854775808 \<le> i \<and> i \<le> 9223372036854775807
          then Inr (Some (string_of_int i))
          else Inl (OverflowError ''Python int too large to convert to C long'')
      | PyFloat f \<Rightarrow> Inr (render f)
      | PyStr s \<Rightarrow> Inr (Some s)
      | PyObj modpath cls \<Rightarrow> Inl (TypeError ''Bad binding argument type supplied''))"

text \<open>The \<^verbatim>\<open>except TypeError\<close> clause that encloses the whole body of \<^verbatim>\<open>_dict\<close>.\<close>

definition except_TypeError :: "string \<Rightarrow> exc + 'a \<Rightarrow> exc + 'a" where
  "except_TypeError key r =
     (case r of
        Inl (TypeError m) \<Rightarrow> Inl (ValueError (key @ '' not in database''))
      | _ \<Rightarrow> r)"

text \<open>The setter branch of \<^verbatim>\<open>_dict\<close> (\<^verbatim>\<open>val is not None\<close>), inside the \<^verbatim>\<open>try\<close>.\<close>

definition dict_set_try ::
  "('f \<Rightarrow> string option) \<Rightarrow> database \<Rightarrow> string \<Rightarrow> 'f pyval \<Rightarrow> exc + database" where
  "dict_set_try render d key val =
     (let val_type = guess_type val in
      if val_type \<notin> {''int'', ''float'', ''str''}
      then Inl (TypeError (''val must be in [int, float, str], not '' @ val_type))
      else case bind_val render val of
             Inl e \<Rightarrow> Inl e
           | Inr cell \<Rightarrow>
               Inr (d\<lparr>globals := filter (\<lambda>(k, v, t). k \<noteq> key) (globals d) @ [(key, cell, val_type)]\<rparr>))"

text \<open>The getter branch (\<^verbatim>\<open>val is None\<close>), inside the \<^verbatim>\<open>try\<close>. Unpacking a missing row
  and converting a \<^verbatim>\<open>NULL\<close> raise \<^verbatim>\<open>TypeError\<close>; a text that is no number raises
  \<^verbatim>\<open>ValueError\<close>; an unknown type tag falls through and returns \<^verbatim>\<open>None\<close>.\<close>

definition dict_get_try ::
  "(string \<Rightarrow> 'f option) \<Rightarrow> database \<Rightarrow> string \<Rightarrow> exc + 'f pyval option" where
  "dict_get_try parse d key =
     (case filter (\<lambda>(k, v, t). k = key) (globals d) of
        [] \<Rightarrow> Inl (TypeError ''cannot unpack non-iterable NoneType object'')
      | (k, value, valtype) # _ \<Rightarrow>
          if valtype = ''int'' then
            (case value of
               None \<Rightarrow> Inl (TypeError ''int() argument must be a string or a number'')
             | Some txt \<Rightarrow>
                 (case int_of_string txt of
                    None \<Rightarrow> Inl (ValueError ''invalid literal for int()'')
                  | Some i \<Rightarrow> Inr (Some (PyInt i))))
          else if valtype = ''float'' then
            (case value of
               None \<Rightarrow> Inl (TypeError ''float() argument must be a string or a number'')
             | Some txt \<Rightarrow>
                 (case parse txt of
                    None \<Rightarrow> Inl (ValueError ''could not convert string to float'')
                  | Some f \<Rightarrow> Inr (Some (PyFloat f))))
          else if valtype = ''str'' then
            (case value of None \<Rightarrow> Inr (Some (PyStr ''None'')) | Some txt \<Rightarrow> Inr (Some (PyStr txt)))
          else Inr None)"

text \<open>\<^verbatim>\<open>Freezable._dict(key, val=None)\<close>: the result and the tables afterwards.\<close>

definition Freezable_dict ::
  "('f \<Rightarrow> string option) \<Rightarrow> (string \<Rightarrow> 'f option) \<Rightarrow> database \<Rightarrow> string \<Rightarrow> 'f pyval option
     \<Rightarrow> (exc + 'f pyval option) \<times> database" where
  "Freezable_dict render parse d key val =
     (case val of
        Some v \<Rightarrow>
          (case except_TypeError key (dict_set_try render d key v) of
             Inl e \<Rightarrow> (Inl e, d)
           | Inr d' \<Rightarrow> (Inr None, d'))
      | None \<Rightarrow> (except_TypeError key (dict_get_try parse d key), d))"

section \<open>The column store\<close>

text \<open>
  A \<^verbatim>\<open>Freezable\<close> object as its instance dictionary. \<^verbatim>\<open>Freezable.__init__\<close> assigns
  exactly the attributes below; \<open>cls\<close> is the name of the object's class, which
  \<^verbatim>\<open>guess_type(self)\<close> returns, and \<open>root\<close> is the configured base directory.
\<close>

datatype attr = AStr string | AObject

type_synonym pyobject = "(string \<times> attr) list"

definition path_join :: "string \<Rightarrow> string \<Rightarrow> string" where
  "path_join a b = a @ ''/'' @ b"

definition attr_text :: "attr \<Rightarrow> string" where
  "attr_text v = (case v of AStr s \<Rightarrow> s | AObject \<Rightarrow> ''<object>'')"

text \<open>Attribute access: the instance dictionary, then the names \<open>cls_names\<close> that the
  classes of the object define (\<open>Freezable_names\<close> for a \<^verbatim>\<open>Freezable\<close>,
  \<open>Cohort_names @ Freezable_names\<close> for a \<^verbatim>\<open>Cohort\<close>).\<close>

definition getattr :: "string list \<Rightarrow> pyobject \<Rightarrow> string \<Rightarrow> exc + attr" where
  "getattr cls_names self n =
     (case map_of self n of
        Some v \<Rightarrow> Inr v
      | None \<Rightarrow> if n \<in> set cls_names then Inr AObject else Inl (AttributeError n))"

definition Freezable_init ::
  "string \<Rightarrow> string \<Rightarrow> string \<Rightarrow> string option \<Rightarrow> pyobject option \<Rightarrow> exc + pyobject" where
  "Freezable_init cls root name dtype parent =
     (let m80_dtype = (case dtype of None \<Rightarrow> cls | Some t \<Rightarrow> t);
          self = [(''_m80_name'', AStr name), (''_m80_dtype'', AStr m80_dtype),
                  (''_children'', AObject)]
      in case parent of
           None \<Rightarrow>
             Inr (self @ [(''_basedir'', AStr (path_join (path_join root ''databases'')
                                               (m80_dtype @ ''.'' @ name))),
                          (''_parent'', AObject), (''_db'', AObject)])
         | Some p \<Rightarrow>
             (case map_of p ''_basedir'' of
                None \<Rightarrow> Inl (AttributeError ''_basedir'')
              | Some b \<Rightarrow>
                  Inr (self @ [(''_basedir'', AStr (path_join (attr_text b)
                                                    (m80_dtype @ ''.'' @ name))),
                               (''_parent'', AObject), (''_db'', AObject)])))"

text \<open>\<^verbatim>\<open>Freezable._get_dbpath\<close>.\<close>

definition get_dbpath ::
  "string list \<Rightarrow> pyobject \<Rightarrow> string \<Rightarrow> string option \<Rightarrow> string option \<Rightarrow> exc + string" where
  "get_dbpath cls_names self extension dtype dbname =
     (case (case dbname of None \<Rightarrow> getattr cls_names self ''_m80_name''
                         | Some n \<Rightarrow> Inr (AStr n)) of
        Inl e \<Rightarrow> Inl e
      | Inr dbname' \<Rightarrow>
          (case (case dtype of None \<Rightarrow> getattr cls_names self ''_m80_type''
                             | Some t \<Rightarrow> Inr (AStr t)) of
             Inl e \<Rightarrow> Inl e
           | Inr dtype' \<Rightarrow>
               (case getattr cls_names self ''_basedir'' of
                  Inl e \<Rightarrow> Inl e
                | Inr b \<Rightarrow>
                    Inr (path_join
                           (path_join (attr_text b) (attr_text dtype' @ ''.'' @ attr_text dbname'))
                           extension))))"

text \<open>
  Tables and stored payloads. A data frame is its index and its columns in order; the
  default index \<open>0, 1, ...\<close> has the 64-bit integer type, as has every index of integers.
  A stored payload is the empty array that the setter writes for an empty frame, or a
  column table, which keeps no index.
\<close>

datatype cell = CInt int | CStr string

datatype index = Int64Index "int list" | ObjectIndex "string list"

record dataframe =
  df_index :: index
  df_columns :: "(string \<times> cell list) list"

datatype payload = EmptyCArray | CTable "(string \<times> cell list) list"

datatype bcolz_result = Stored | Frame dataframe | BlazeData payload

type_synonym bcolz_store = "(string \<times> payload) list"

definition index_cells :: "index \<Rightarrow> cell list" where
  "index_cells ix = (case ix of Int64Index ns \<Rightarrow> map CInt ns | ObjectIndex ss \<Rightarrow> map CStr ss)"

definition is_int64 :: "index \<Rightarrow> bool" where
  "is_int64 ix = (case ix of Int64Index ns \<Rightarrow> True | ObjectIndex ss \<Rightarrow> False)"

definition df_empty :: "dataframe \<Rightarrow> bool" where
  "df_empty df = (index_cells (df_index df) = [] \<or> df_columns df = [])"

definition payload_len :: "payload \<Rightarrow> nat" where
  "payload_len p =
     (case p of EmptyCArray \<Rightarrow> 0 | CTable cols \<Rightarrow> (case cols of [] \<Rightarrow> 0 | (c, xs) # _ \<Rightarrow> length xs))"

definition cell_int :: "cell \<Rightarrow> int option" where
  "cell_int c = (case c of CInt i \<Rightarrow> Some i | CStr s \<Rightarrow> None)"

definition cell_text :: "cell \<Rightarrow> string" where
  "cell_text c = (case c of CInt i \<Rightarrow> string_of_int i | CStr s \<Rightarrow> s)"

text \<open>\<^verbatim>\<open>set_index('idx', drop=True)\<close>: the column becomes the index.\<close>

definition index_of_cells :: "cell list \<Rightarrow> index" where
  "index_of_cells cs =
     (if list_all (\<lambda>c. cell_int c \<noteq> None) cs then Int64Index (map (\<lambda>c. the (cell_int c)) cs)
      else ObjectIndex (map cell_text cs))"

text \<open>The reader's part of \<^verbatim>\<open>_bcolz\<close> after the payload is opened.\<close>

definition materialize :: "bool \<Rightarrow> payload \<Rightarrow> bcolz_result" where
  "materialize blaze p =
     (if blaze then BlazeData (if payload_len p = 0 then CTable [] else p)
      else let df = (if payload_len p = 0 then \<lparr>df_index = ObjectIndex [], df_columns = []\<rparr>
                     else \<lparr>df_index = Int64Index (map int [0..<payload_len p]),
                           df_columns = (case p of CTable cols \<Rightarrow> cols | EmptyCArray \<Rightarrow> [])\<rparr>)
           in case map_of (df_columns df) ''idx'' of
                Some cs \<Rightarrow> Frame \<lparr>df_index = index_of_cells cs,
                                   df_columns = AList.delete ''idx'' (df_columns df)\<rparr>
              | None \<Rightarrow> Frame df)"

text \<open>The writer's part of \<^verbatim>\<open>_bcolz\<close>: the payload written for a frame.\<close>

definition to_payload :: "dataframe \<Rightarrow> payload" where
  "to_payload df =
     (let df' = (if \<not> is_int64 (df_index df) \<and> \<not> df_empty df
                 then df\<lparr>df_columns := AList.update ''idx'' (index_cells (df_index df)) (df_columns df)\<rparr>
                 else df)
      in if df_empty df' then EmptyCArray else CTable (df_columns df'))"

text \<open>\<^verbatim>\<open>Freezable._bcolz(tblname, df=None, m80name=None, m80type=None, blaze=False)\<close>.\<close>

definition Freezable_bcolz ::
  "string list \<Rightarrow> pyobject \<Rightarrow> bcolz_store \<Rightarrow> string \<Rightarrow> dataframe option \<Rightarrow> string option
     \<Rightarrow> string option \<Rightarrow> bool \<Rightarrow> (exc + bcolz_result) \<times> bcolz_store" where
  "Freezable_bcolz cls_names self store tblname df m80name m80type blaze =
     (case (case m80type of None \<Rightarrow> getattr cls_names self ''_m80_type''
                          | Some t \<Rightarrow> Inr (AStr t)) of
        Inl e \<Rightarrow> (Inl e, store)
      | Inr m80type' \<Rightarrow>
          (case (case m80name of None \<Rightarrow> getattr cls_names self ''_m80_name''
                               | Some n \<Rightarrow> Inr (AStr n)) of
             Inl e \<Rightarrow> (Inl e, store)
           | Inr m80name' \<Rightarrow>
               (case get_dbpath cls_names self ''bcz'' None None of
                  Inl e \<Rightarrow> (Inl e, store)
                | Inr path \<Rightarrow>
                    (case df of
                       None \<Rightarrow>
                         (case map_of store (path_join path tblname) of
                            None \<Rightarrow>
                              (Inl (IOError (''could not open database for '' @ attr_text m80type'
                                              @ '':'' @ attr_text m80name' @ '' '')), store)
                          | Some p \<Rightarrow> (Inr (materialize blaze p), store))
                     | Some d \<Rightarrow>
                         (Inr Stored,
                          AList.update (path_join path tblname) (to_payload d) store)))))"

section \<open>Concrete catalogs\<close>

text \<open>The tables after \<^verbatim>\<open>Cohort.__init__\<close> in a fresh directory, and the new catalog object.\<close>

definition empty_db :: database where
  "empty_db = \<lparr>accessions = [], AID_seq = 0, aliases = [], metadata = [], raw_files = [],
               aid_files = [], globals = []\<rparr>"

definition new_cohort :: cohort where
  "new_cohort = \<lparr>db = empty_db, savepoints = [], sql_log = [], cache = [], warnings = []\<rparr>"

text \<open>One accession \<^verbatim>\<open>S1\<close> with the metadata \<^verbatim>\<open>nick = bob\<close> and the alias \<^verbatim>\<open>bob\<close>.\<close>

definition catalog_S1_bob :: cohort where
  "catalog_S1_bob =
     new_cohort\<lparr>db := empty_db\<lparr>accessions := [(1, ''S1'')], AID_seq := 1,
                                aliases := [(''bob'', 1)], metadata := [(1, ''nick'', ''bob'')]\<rparr>\<rparr>"

text \<open>The accession of the spec's scenario: \<^verbatim>\<open>S1\<close>, \<^verbatim>\<open>age = 23\<close>, one file.\<close>

definition acc_S1 :: accession where
  "acc_S1 = \<lparr>acc_name = ''S1'', acc_files = [''a.fastq''],
              acc_metadata = [(''age'', MStr ''23'')]\<rparr>"

text \<open>An accession named \<^verbatim>\<open>bob\<close> with neither metadata nor files.\<close>

definition acc_bob :: accession where
  "acc_bob = \<lparr>acc_name = ''bob'', acc_files = [], acc_metadata = []\<rparr>"

text \<open>One accession with \<^verbatim>\<open>nick = bobby\<close>, after \<^verbatim>\<open>S1\<close> has been resolved once.\<close>

definition nick_catalog :: cohort where
  "nick_catalog =
     new_cohort\<lparr>db := empty_db\<lparr>accessions := [(1, ''S1'')], AID_seq := 1,
                                metadata := [(1, ''nick'', ''bobby'')]\<rparr>,
                cache := [(IStr ''S1'', 1)]\<rparr>"

text \<open>Two accessions that carry the same value \<^verbatim>\<open>bobby\<close> under the key \<^verbatim>\<open>nick\<close>.\<close>

definition two_nicks :: cohort where
  "two_nicks =
     new_cohort\<lparr>db := empty_db\<lparr>accessions := [(1, ''S1''), (2, ''S2'')], AID_seq := 2,
                                metadata := [(1, ''nick'', ''bobby''), (2, ''nick'', ''bobby'')]\<rparr>\<rparr>"

text \<open>The catalog \<open>catalog_S1_bob\<close> after its alias \<^verbatim>\<open>bob\<close> has been resolved once.\<close>

definition cached_bob :: cohort where
  "cached_bob = catalog_S1_bob\<lparr>cache := [(IStr ''bob'', 1)]\<rparr>"

text \<open>Two accessions, the second of which bears the name that is also an alias of the first.\<close>

definition name_is_alias :: cohort where
  "name_is_alias =
     new_cohort\<lparr>db := empty_db\<lparr>accessions := [(1, ''S1''), (2, ''bob'')], AID_seq := 2,
                                aliases := [(''bob'', 1)]\<rparr>\<rparr>"

text \<open>A body that inserts the accession \<^verbatim>\<open>S1\<close> and then raises \<open>e\<close>.\<close>

definition write_S1_then :: "exc \<Rightarrow> cohort \<Rightarrow> (exc + unit) \<times> cohort" where
  "write_S1_then e st = (Inl e, st\<lparr>db := insert_or_ignore_accession ''S1'' (db st)\<rparr>)"

text \<open>The log that one bulk transaction without rollback leaves.\<close>

definition committed_log :: "stmt list" where
  "committed_log = [PragmaSynchronousOff, PragmaJournalMemory, Savepoint ''bulk_transaction'',
                    Release ''bulk_transaction'']"

section \<open>Evaluation rules\<close>

lemmas tx_defs = bulk_transaction_def bulk_transaction_enter_def exec_pragma_synchronous_off_def
  exec_pragma_journal_memory_def exec_savepoint_def exec_rollback_to_def
  exec_release_def finally_release_def

lemmas resolve_defs = get_AID_def lookup_AID_def sql_param_def select_AID_by_name_def
  select_AID_by_alias_def select_AID_by_AID_def param_text_def maxsize_def

lemmas insert_defs = insert_or_ignore_accession_def insert_or_replace_metadata_def
  insert_or_ignore_raw_file_def insert_or_replace_file_def text_of_mval_def

lemmas getitem_defs = getitem_def dict_of_rows_def files_view_def Accession_parameters_def

lemmas catalog_defs = new_cohort_def empty_db_def catalog_S1_bob_def acc_S1_def acc_bob_def
  nick_catalog_def two_nicks_def cached_bob_def name_is_alias_def committed_log_def
  write_S1_then_def

section \<open>Properties of identity resolution and deletion\<close>








section \<open>Adding and reading back\<close>

lemma no_bulk_transaction_attribute:
  "''_bulk_transaction'' \<notin> set (Cohort_instance_names @ Cohort_names @ Freezable_names)"
  by (simp add: Cohort_instance_names_def Freezable_instance_names_def Cohort_names_def
      Freezable_names_def)

lemma add_accession_S1:
  "add_accession_with bulk_transaction new_cohort acc_S1 =
     (Inr \<lparr>acc_name = ''S1'', acc_files = [],
           acc_metadata = [(''age'', MStr ''23''), (''AID'', MInt 1)]\<rparr>,
      new_cohort\<lparr>db := empty_db\<lparr>accessions := [(1, ''S1'')], AID_seq := 1,
                                 metadata := [(1, ''age'', ''23'')],
                                 raw_files := [(1, ''a.fastq'')]\<rparr>,
                 sql_log := committed_log, cache := [(IAcc acc_S1, 1)]\<rparr>)"
  by (simp add: add_accession_with_def add_accession_block_def tx_defs resolve_defs insert_defs
      getitem_defs catalog_defs Let_def)

lemma add_accessions_S1:
  "add_accessions_with bulk_transaction new_cohort [acc_S1] =
     (Inr [\<lparr>acc_name = ''S1'', acc_files = [''a.fastq''],
            acc_metadata = [(''age'', MStr ''23''), (''AID'', MInt 1)]\<rparr>],
      new_cohort\<lparr>db := empty_db\<lparr>accessions := [(1, ''S1'')], AID_seq := 1,
                                 metadata := [(1, ''age'', ''23'')],
                                 raw_files := [(1, ''a.fastq'')], aid_files := [(1, 1, None)]\<rparr>,
                 sql_log := committed_log, cache := [(IAcc acc_S1, 1), (IStr ''S1'', 1)]\<rparr>)"
  by (simp add: add_accessions_with_def add_accessions_block_def AID_mapping_def iter_def tx_defs
      resolve_defs insert_defs getitem_defs catalog_defs Let_def)

text \<open>
  Claim C1, at the spec's own scenario. The claim says that after \<^verbatim>\<open>add_accession\<close> of
  \<^verbatim>\<open>S1\<close> with metadata \<^verbatim>\<open>{age: 23}\<close> and files \<^verbatim>\<open>[a.fastq]\<close>, getting \<^verbatim>\<open>S1\<close>
  returns these files. In the code the method stops at \<^verbatim>\<open>self._bulk_transaction()\<close>, a
  name that no class defines, and nothing is added. Run under
  \<^verbatim>\<open>Freezable.bulk_transaction\<close> instead, its block writes the paths to
  \<^verbatim>\<open>raw_files\<close> only and links none to the accession, so the accession read back has
  no file; the bulk method \<^verbatim>\<open>add_accessions\<close> on the same input links the file.
\<close>

theorem add_accession_loses_files:
  "fst (add_accession new_cohort acc_S1) = Inl (AttributeError ''_bulk_transaction'')
   \<and> fst (getitem (snd (add_accession new_cohort acc_S1)) (IStr ''S1''))
       = Inl (NameError ''S1 not in Cohort'')
   \<and> fst (getitem (snd (add_accession_with bulk_transaction new_cohort acc_S1)) (IStr ''S1''))
       = Inr \<lparr>acc_name = ''S1'', acc_files = [],
              acc_metadata = [(''age'', MStr ''23''), (''AID'', MInt 1)]\<rparr>
   \<and> fst (getitem (snd (add_accessions_with bulk_transaction new_cohort [acc_S1])) (IStr ''S1''))
       = Inr \<lparr>acc_name = ''S1'', acc_files = [''a.fastq''],
              acc_metadata = [(''age'', MStr ''23''), (''AID'', MInt 1)]\<rparr>"
proof -
  have a: "add_accession new_cohort acc_S1 = (Inl (AttributeError ''_bulk_transaction''), new_cohort)"
    by (simp add: add_accession_def context_manager_def)
  have b: "fst (getitem new_cohort (IStr ''S1'')) = Inl (NameError ''S1 not in Cohort'')"
    by (simp add: resolve_defs getitem_defs catalog_defs)
  have c: "fst (getitem (snd (add_accession_with bulk_transaction new_cohort acc_S1)) (IStr ''S1''))
       = Inr \<lparr>acc_name = ''S1'', acc_files = [],
              acc_metadata = [(''age'', MStr ''23''), (''AID'', MInt 1)]\<rparr>"
    unfolding add_accession_S1 by (simp add: resolve_defs getitem_defs catalog_defs)
  have d: "fst (getitem (snd (add_accessions_with bulk_transaction new_cohort [acc_S1])) (IStr ''S1''))
       = Inr \<lparr>acc_name = ''S1'', acc_files = [''a.fastq''],
              acc_metadata = [(''age'', MStr ''23''), (''AID'', MInt 1)]\<rparr>"
    unfolding add_accessions_S1 by (simp add: resolve_defs getitem_defs catalog_defs)
  show ?thesis
    using a b c d by simp
qed

section \<open>Cache invalidation\<close>

lemma delitem_clears_cache: "delitem st name = (Inr u, st') \<Longrightarrow> cache st' = []"
  by (auto simp: delitem_def invalidates_cache_def split: prod.splits sum.splits)

lemma drop_aliases_clears_cache: "cache (snd (drop_aliases st)) = []"
  by (simp add: drop_aliases_def invalidates_cache_def)

lemma alias_column_nick:
  "alias_column_with bulk_transaction nick_catalog ''nick'' 3 =
     (Inr (), nick_catalog\<lparr>db := (db nick_catalog)\<lparr>aliases := [(''bobby'', 1)]\<rparr>,
                           sql_log := committed_log\<rparr>)"
  by (simp add: alias_column_with_def alias_column_block_def names_def search_names_def
      Counter_def insert_alias_def tx_defs catalog_defs Let_def)

lemma add_accession_bob:
  "snd (add_accession_with bulk_transaction cached_bob acc_bob) =
     cached_bob\<lparr>db := (db cached_bob)\<lparr>accessions := [(1, ''S1''), (2, ''bob'')], AID_seq := 2\<rparr>,
                 sql_log := committed_log,
                 cache := [(IAcc acc_bob, 2), (IStr ''bob'', 1)]\<rparr>"
  by (simp add: add_accession_with_def add_accession_block_def tx_defs resolve_defs insert_defs
      getitem_defs catalog_defs Let_def)

text \<open>
  Claim C2. The claim says that the identity cache is cleared after every operation that
  inserts an accession or an alias, \<^verbatim>\<open>alias_column\<close> included. In the code only
  \<^verbatim>\<open>__delitem__\<close> and \<^verbatim>\<open>drop_aliases\<close> carry \<^verbatim>\<open>invalidates_cache\<close>. At a catalog
  whose cache holds \<^verbatim>\<open>S1\<close>, \<^verbatim>\<open>alias_column\<close> leaves the cache as it was, both as
  written (it stops at \<^verbatim>\<open>self._bulk_transaction()\<close>) and when its block runs under
  \<^verbatim>\<open>Freezable.bulk_transaction\<close> and inserts the alias. Adding an accession named like
  a cached alias leaves the alias's identity in the cache, so that deleting by that name
  removes the other accession and the name still resolves afterwards; and a name that is
  also an alias resolves after its accession is deleted.
\<close>

theorem alias_column_keeps_cache:
  "alias_column nick_catalog ''nick'' 3 = (Inl (AttributeError ''_bulk_transaction''), nick_catalog)
   \<and> cache nick_catalog = [(IStr ''S1'', 1)]
   \<and> aliases (db (snd (alias_column_with bulk_transaction nick_catalog ''nick'' 3))) = [(''bobby'', 1)]
   \<and> cache (snd (alias_column_with bulk_transaction nick_catalog ''nick'' 3)) = [(IStr ''S1'', 1)]
   \<and> fst (get_AID (snd (add_accession_with bulk_transaction cached_bob acc_bob)) (IStr ''bob'')) = Inr 1
   \<and> lookup_AID (db (snd (add_accession_with bulk_transaction cached_bob acc_bob))) (IStr ''bob'') = Inr 2
   \<and> accessions (db (snd (delitem (snd (add_accession_with bulk_transaction cached_bob acc_bob))
                              (IStr ''bob'')))) = [(2, ''bob'')]
   \<and> fst (get_AID (snd (delitem name_is_alias (IStr ''bob''))) (IStr ''bob'')) = Inr 1"
proof -
  have a: "alias_column nick_catalog ''nick'' 3 = (Inl (AttributeError ''_bulk_transaction''), nick_catalog)"
    by (simp add: alias_column_def context_manager_def)
  have b: "cache nick_catalog = [(IStr ''S1'', 1)]"
    by (simp add: catalog_defs)
  have c: "aliases (db (snd (alias_column_with bulk_transaction nick_catalog ''nick'' 3))) = [(''bobby'', 1)]"
    unfolding alias_column_nick by simp
  have d: "cache (snd (alias_column_with bulk_transaction nick_catalog ''nick'' 3)) = [(IStr ''S1'', 1)]"
    unfolding alias_column_nick by (simp add: catalog_defs)
  have e: "fst (get_AID (snd (add_accession_with bulk_transaction cached_bob acc_bob)) (IStr ''bob'')) = Inr 1"
    unfolding add_accession_bob by (simp add: get_AID_def)
  have f: "lookup_AID (db (snd (add_accession_with bulk_transaction cached_bob acc_bob))) (IStr ''bob'') = Inr 2"
    unfolding add_accession_bob by (simp add: resolve_defs catalog_defs)
  have g: "accessions (db (snd (delitem (snd (add_accession_with bulk_transaction cached_bob acc_bob))
                              (IStr ''bob'')))) = [(2, ''bob'')]"
    unfolding add_accession_bob
    by (simp add: delitem_def invalidates_cache_def delitem_body_def get_AID_def catalog_defs)
  have h: "fst (get_AID (snd (delitem name_is_alias (IStr ''bob''))) (IStr ''bob'')) = Inr 1"
    by (simp add: delitem_def invalidates_cache_def delitem_body_def resolve_defs catalog_defs)
  show ?thesis
    using a b c d e f g h by simp
qed

section \<open>Alias assignment\<close>

text \<open>
  Claim C4. The claim says that a value proposed for two different identities becomes an
  alias of neither and is reported. In the code the candidates are first collected in a
  dictionary keyed by the value, which keeps one identity per value, so the count of
  every key is one and the test \<^verbatim>\<open>count > 1\<close> never holds. With \<^verbatim>\<open>bobby\<close> proposed
  for the identities 1 and 2, the block run under \<^verbatim>\<open>Freezable.bulk_transaction\<close> makes
  \<^verbatim>\<open>bobby\<close> an alias of 2 and warns of nothing; the method as written stops at
  \<^verbatim>\<open>self._bulk_transaction()\<close> and inserts no alias at all.
\<close>

theorem alias_column_collision:
  "fst (alias_column two_nicks ''nick'' 3) = Inl (AttributeError ''_bulk_transaction'')
   \<and> aliases (db (snd (alias_column two_nicks ''nick'' 3))) = []
   \<and> fst (alias_column_with bulk_transaction two_nicks ''nick'' 3) = Inr ()
   \<and> aliases (db (snd (alias_column_with bulk_transaction two_nicks ''nick'' 3))) = [(''bobby'', 2)]
   \<and> warnings (snd (alias_column_with bulk_transaction two_nicks ''nick'' 3)) = []"
proof -
  have a: "alias_column two_nicks ''nick'' 3 = (Inl (AttributeError ''_bulk_transaction''), two_nicks)"
    by (simp add: alias_column_def context_manager_def)
  have b: "alias_column_with bulk_transaction two_nicks ''nick'' 3 =
     (Inr (), two_nicks\<lparr>db := (db two_nicks)\<lparr>aliases := [(''bobby'', 2)]\<rparr>,
                        sql_log := committed_log\<rparr>)"
    by (simp add: alias_column_with_def alias_column_block_def names_def search_names_def
        Counter_def insert_alias_def tx_defs catalog_defs Let_def)
  show ?thesis
    unfolding a b by (simp add: catalog_defs)
qed

section \<open>The key-value store: rejected values\<close>

text \<open>
  Claim C8. The claim says that a value of any other class is rejected with a type-mismatch
  error. In the code the \<^verbatim>\<open>TypeError\<close> is raised inside the \<^verbatim>\<open>try\<close> whose
  \<^verbatim>\<open>except TypeError\<close> clause replaces it: for every key and every object of another
  class the caller sees \<^verbatim>\<open>ValueError\<close> with the text of a missing key. Nothing is stored.
\<close>

theorem dict_rejects_with_ValueError:
  "Freezable_dict render parse d key (Some (PyObj modpath cls)) =
     (Inl (ValueError (key @ '' not in database'')), d)"
  by (simp add: Freezable_dict_def except_TypeError_def dict_set_try_def bind_val_def
      guess_type_def Let_def)

section \<open>The column store: attribute lookup\<close>

text \<open>
  Claim C9. The claim says that a stored table is read back as it was. In the code
  \<^verbatim>\<open>_bcolz\<close> and \<^verbatim>\<open>_get_dbpath\<close> read \<^verbatim>\<open>self._m80_type\<close>, while
  \<^verbatim>\<open>__init__\<close> assigns \<^verbatim>\<open>self._m80_dtype\<close>: on every object that the constructor
  builds, every call of \<^verbatim>\<open>_bcolz\<close>, reading or writing, raises \<^verbatim>\<open>AttributeError\<close> and
  leaves the store untouched.
\<close>

theorem bcolz_raises_AttributeError:
  "case Freezable_init cls root name dtype None of
     Inl e \<Rightarrow> False
   | Inr self \<Rightarrow>
       Freezable_bcolz Freezable_names self store tblname df m80name m80type blaze =
         (Inl (AttributeError ''_m80_type''), store)
       \<and> Freezable_bcolz (Cohort_names @ Freezable_names) self store tblname df m80name m80type
            blaze =
           (Inl (AttributeError ''_m80_type''), store)"
  by (simp add: Freezable_init_def Freezable_bcolz_def get_dbpath_def getattr_def
      Freezable_names_def Cohort_names_def Let_def split: option.splits)

text \<open>
  Apart from the attribute: the writer keeps the index as the column \<^verbatim>\<open>idx\<close> only when
  its type is not the 64-bit integer type, so an index of integers that is not
  \<open>0, 1, ...\<close> is replaced by the default index on the way through the store, while an
  index of texts comes back.
\<close>

lemma integer_index_not_saved:
  "materialize False (to_payload \<lparr>df_index = Int64Index [10, 20],
                                   df_columns = [(''c'', [CInt 1, CInt 2])]\<rparr>)
     = Frame \<lparr>df_index = Int64Index [0, 1], df_columns = [(''c'', [CInt 1, CInt 2])]\<rparr>"
  by (simp add: materialize_def to_payload_def is_int64_def df_empty_def index_cells_def
      payload_len_def upt_rec)

lemma text_index_restored:
  "materialize False (to_payload \<lparr>df_index = ObjectIndex [''a'', ''b''],
                                   df_columns = [(''c'', [CInt 1, CInt 2])]\<rparr>)
     = Frame \<lparr>df_index = ObjectIndex [''a'', ''b''], df_columns = [(''c'', [CInt 1, CInt 2])]\<rparr>"
  by (simp add: materialize_def to_payload_def is_int64_def df_empty_def index_cells_def
      payload_len_def index_of_cells_def cell_int_def cell_text_def)

section \<open>The scoped bulk transaction: exit paths\<close>




section \<open>Search\<close>

lemma like_percent_any: "like ''%'' t"
  by (induction t) simp_all

lemma like_literal_prefix:
  "CHR ''%'' \<notin> set s \<Longrightarrow> CHR ''_'' \<notin> set s \<Longrightarrow>
   like (s @ ''%'') t \<longleftrightarrow> prefix (map lower_ascii s) (map lower_ascii t)"
proof (induction s arbitrary: t)
  case Nil
  then show ?case by (simp add: like_percent_any)
next
  case (Cons c s)
  then show ?case by (cases t) auto
qed

lemma like_percent_suffix: "like (CHR ''%'' # p) t \<longleftrightarrow> (\<exists>u. suffix u t \<and> like p u)"
proof (induction t)
  case Nil
  then show ?case by simp
next
  case (Cons c cs)
  then show ?case by (auto simp: suffix_Cons)
qed

lemma suffix_map_ex:
  "(\<exists>u. suffix u t \<and> prefix xs (map f u)) \<longleftrightarrow> (\<exists>v. suffix v (map f t) \<and> prefix xs v)"
proof
  assume "\<exists>u. suffix u t \<and> prefix xs (map f u)"
  then obtain u where "suffix u t" "prefix xs (map f u)" by blast
  then have "suffix (map f u) (map f t)" by (auto simp: suffix_def)
  then show "\<exists>v. suffix v (map f t) \<and> prefix xs v"
    using \<open>prefix xs (map f u)\<close> by blast
next
  assume "\<exists>v. suffix v (map f t) \<and> prefix xs v"
  then obtain v where v: "suffix v (map f t)" "prefix xs v" by blast
  then obtain zs where "map f t = zs @ v" by (auto simp: suffix_def)
  then obtain a b where "t = a @ b" "v = map f b"
    by (auto simp: map_eq_append_conv)
  then show "\<exists>u. suffix u t \<and> prefix xs (map f u)"
    using v by (auto simp: suffix_def)
qed

lemma like_contains:
  assumes "CHR ''%'' \<notin> set s" "CHR ''_'' \<notin> set s"
  shows "like (CHR ''%'' # s @ ''%'') t \<longleftrightarrow> sublist (map lower_ascii s) (map lower_ascii t)"
proof -
  have "like (CHR ''%'' # s @ ''%'') t \<longleftrightarrow> (\<exists>u. suffix u t \<and> like (s @ ''%'') u)"
    using like_percent_suffix [of "s @ ''%''" t] by simp
  also have "\<dots> \<longleftrightarrow> (\<exists>u. suffix u t \<and> prefix (map lower_ascii s) (map lower_ascii u))"
    using like_literal_prefix [OF assms] by simp
  also have "\<dots> \<longleftrightarrow> sublist (map lower_ascii s) (map lower_ascii t)"
    by (simp add: suffix_map_ex sublist_altdef')
  finally show ?thesis .
qed

text \<open>
  Claim C6 as stated fails: the search for \<^verbatim>\<open>s1\<close> returns the name \<^verbatim>\<open>S1\<close>, which
  does not contain \<^verbatim>\<open>s1\<close>, and the search for \<^verbatim>\<open>_\<close> returns every name and alias,
  none of which contains an underscore.
\<close>

theorem search_names_matches_other_case:
  "search_names catalog_S1_bob ''s1'' = [''S1''] \<and> \<not> sublist ''s1'' ''S1''
   \<and> search_names catalog_S1_bob ''_'' = [''S1'', ''bob''] \<and> \<not> sublist ''_'' ''S1''"
  by (simp add: search_names_def catalog_defs lower_ascii_def sublist_Cons_right)

text \<open>
  Claim C6, amended. For every search text without \<^verbatim>\<open>%\<close> and \<^verbatim>\<open>_\<close>, the result is
  exactly the accession names that contain the text up to the case of ASCII letters,
  followed by the aliases that do, each in the order of its table.
\<close>

theorem search_names_ignores_case:
  assumes "CHR ''%'' \<notin> set s" and "CHR ''_'' \<notin> set s"
  shows "search_names st s =
           map snd (filter (\<lambda>(aid, n). sublist (map lower_ascii s) (map lower_ascii n))
                      (accessions (db st)))
           @ map fst (filter (\<lambda>(al, aid). sublist (map lower_ascii s) (map lower_ascii al))
                        (aliases (db st)))"
  by (simp add: search_names_def like_contains [OF assms] split_def)

theorem search_names_ignores_case_witness:
  "search_names catalog_S1_bob ''O'' =
     map snd (filter (\<lambda>(aid, n). sublist (map lower_ascii ''O'') (map lower_ascii n))
                (accessions (db catalog_S1_bob)))
     @ map fst (filter (\<lambda>(al, aid). sublist (map lower_ascii ''O'') (map lower_ascii al))
                  (aliases (db catalog_S1_bob)))
   \<and> search_names catalog_S1_bob ''O'' = [''bob'']"
proof -
  have h1: "CHR ''%'' \<notin> set ''O''" by simp
  have h2: "CHR ''_'' \<notin> set ''O''" by simp
  have "search_names catalog_S1_bob ''O'' = [''bob'']"
    by (simp add: search_names_def catalog_defs lower_ascii_def)
  then show ?thesis
    using search_names_ignores_case [OF h1 h2, of catalog_S1_bob] by simp
qed

section \<open>The key-value store: round trip\<close>















section \<open>Sampling\<close>

lemma dict_rows_keys:
  "fst ` set (foldl (\<lambda>d (k, v). AList.update k (MStr v) d) acc rows)
     = fst ` set acc \<union> fst ` set rows"
proof (induction rows arbitrary: acc)
  case Nil
  then show ?case by simp
next
  case (Cons r rows)
  obtain k v where r: "r = (k, v)"
    by (cases r)
  have "fst ` set (foldl (\<lambda>d (k, v). AList.update k (MStr v) d) acc (r # rows))
          = fst ` set (AList.update k (MStr v) acc) \<union> fst ` set rows"
    using Cons.IH [of "AList.update k (MStr v) acc"] r by simp
  also have "\<dots> = ({k} \<union> fst ` set acc) \<union> fst ` set rows"
    by (simp only: dom_update)
  finally show ?case
    using r by auto
qed

lemma dict_of_rows_keys: "fst ` set (dict_of_rows rows) = fst ` set rows"
  by (simp add: dict_of_rows_def dict_rows_keys)

lemma filter_head_mem: "filter P rows = x # rest \<Longrightarrow> x \<in> set rows \<and> P x"
proof -
  assume "filter P rows = x # rest"
  then have "x \<in> set (filter P rows)"
    by simp
  then show ?thesis
    by simp
qed

lemma select_AID_by_name_first:
  assumes "(aid0, nm) \<in> set (accessions d)"
  shows "\<exists>aid rest. select_AID_by_name d (PStr nm) = aid # rest
              \<and> aid \<in> fst ` set (accessions d)"
proof -
  define hits where "hits = filter (\<lambda>(aid, n). PStr n = PStr nm) (accessions d)"
  have "(aid0, nm) \<in> set hits"
    using assms by (simp add: hits_def)
  then have "hits \<noteq> []"
    by auto
  then obtain x xs where f: "hits = x # xs"
    by (cases hits) auto
  then have "x \<in> set (accessions d)"
    using filter_head_mem [of "\<lambda>(aid, n). PStr n = PStr nm" "accessions d" x xs]
    by (simp add: hits_def)
  then have "fst x \<in> fst ` set (accessions d)"
    by simp
  moreover have "select_AID_by_name d (PStr nm) = fst x # map fst xs"
    using f by (simp add: select_AID_by_name_def hits_def)
  ultimately show ?thesis
    by blast
qed

lemma rows_of_AID:
  assumes "aid \<in> fst ` set rows"
  shows "\<exists>nm rest. filter (\<lambda>(a, n). a = aid) rows = (aid, nm) # rest \<and> nm \<in> snd ` set rows"
proof -
  define hits where "hits = filter (\<lambda>(a, n). a = aid) rows"
  obtain n0 where "(aid, n0) \<in> set rows"
    using assms by auto
  then have "(aid, n0) \<in> set hits"
    by (simp add: hits_def)
  then have "hits \<noteq> []"
    by auto
  then obtain x xs where f: "hits = x # xs"
    by (cases hits) auto
  then have "x \<in> set rows \<and> (\<lambda>(a, n). a = aid) x"
    using filter_head_mem [of "\<lambda>(a, n). a = aid" rows x xs] by (simp add: hits_def)
  then have "x = (aid, snd x)" and "snd x \<in> snd ` set rows"
    by (auto simp: split_def)
  then show ?thesis
    using f unfolding hits_def by metis
qed

lemma get_AID_name_ok:
  assumes sound: "cache_sound st" and row: "(aid0, nm) \<in> set (accessions (db st))"
  shows "\<exists>aid st'. get_AID st (IStr nm) = (Inr aid, st') \<and> db st' = db st \<and> cache_sound st'
            \<and> aid \<in> fst ` set (accessions (db st))"
proof (cases "map_of (cache st) (IStr nm)")
  case (Some aid)
  then have "(IStr nm, aid) \<in> set (cache st)"
    by (rule map_of_SomeD)
  then have a: "aid \<in> fst ` set (accessions (db st))"
    using sound by (auto simp: cache_sound_def list_all_iff)
  have "cache_sound (st\<lparr>cache := (IStr nm, aid) # filter (\<lambda>(k, v). k \<noteq> IStr nm) (cache st)\<rparr>)"
    using sound a by (auto simp: cache_sound_def list_all_iff)
  then show ?thesis
    using Some a by (simp add: get_AID_def)
next
  case None
  obtain aid rest where sel: "select_AID_by_name (db st) (PStr nm) = aid # rest"
    and a: "aid \<in> fst ` set (accessions (db st))"
    using select_AID_by_name_first [OF row] by blast
  have lk: "lookup_AID (db st) (IStr nm) = Inr aid"
    by (simp add: lookup_AID_def sql_param_def sel)
  have "set (take maxsize ((IStr nm, aid) # cache st)) \<subseteq> set ((IStr nm, aid) # cache st)"
    by (rule set_take_subset)
  then have "cache_sound (st\<lparr>cache := take maxsize ((IStr nm, aid) # cache st)\<rparr>)"
    using sound a by (auto simp: cache_sound_def list_all_iff)
  then show ?thesis
    using None lk a by (simp add: get_AID_def)
qed

lemma getitem_name_ok:
  assumes sound: "cache_sound st" and nf: "no_parameter_key st"
    and row: "(aid0, nm) \<in> set (accessions (db st))"
  shows "\<exists>a st'. getitem st (IStr nm) = (Inr a, st') \<and> db st' = db st \<and> cache_sound st'
            \<and> acc_name a \<in> snd ` set (accessions (db st))"
proof -
  obtain aid st' where g: "get_AID st (IStr nm) = (Inr aid, st')" and d: "db st' = db st"
    and s': "cache_sound st'" and a: "aid \<in> fst ` set (accessions (db st))"
    using get_AID_name_ok [OF sound row] by blast
  obtain n rest where r: "filter (\<lambda>(a, n). a = aid) (accessions (db st)) = (aid, n) # rest"
    and n: "n \<in> snd ` set (accessions (db st))"
    using rows_of_AID [OF a] by blast
  define R where "R = map snd (filter (\<lambda>(a, k, v). a = aid) (metadata (db st)))"
  have "fst ` set R \<subseteq> (\<lambda>(a, k, v). k) ` set (metadata (db st))"
    by (force simp: R_def)
  then have "\<forall>k \<in> fst ` set R. k \<notin> set Accession_parameters"
    using nf by (auto simp: no_parameter_key_def list_all_iff)
  then have "\<forall>k \<in> fst ` set (dict_of_rows R). k \<notin> set Accession_parameters"
    by (simp add: dict_of_rows_keys)
  moreover have "''AID'' \<notin> set Accession_parameters"
    by (simp add: Accession_parameters_def)
  ultimately have "\<forall>k \<in> fst ` set (AList.update ''AID'' (MInt aid) (dict_of_rows R)).
                     k \<notin> set Accession_parameters"
    by (simp add: dom_update)
  then have "\<not> list_ex (\<lambda>k. k \<in> set Accession_parameters)
                 (map fst (AList.update ''AID'' (MInt aid) (dict_of_rows R)))"
    by (simp add: list_ex_iff)
  then show ?thesis
    using g d s' r n by (simp add: getitem_def Let_def R_def)
qed

lemma random_accession_ok:
  assumes sound: "cache_sound st" and nf: "no_parameter_key st" and ne: "accessions (db st) \<noteq> []"
  shows "\<exists>a st'. random_accession st r = (Inr a, st') \<and> db st' = db st \<and> cache_sound st'
            \<and> acc_name a \<in> snd ` set (accessions (db st))"
proof -
  obtain row rows where rs: "accessions (db st) = row # rows"
    using ne by (cases "accessions (db st)") auto
  define chosen where "chosen = (row # rows) ! (r mod length (row # rows))"
  have "chosen \<in> set (row # rows)"
    unfolding chosen_def by (rule nth_mem) simp
  then have "(fst chosen, snd chosen) \<in> set (accessions (db st))"
    using rs by simp
  from getitem_name_ok [OF sound nf this] show ?thesis
    using rs by (simp add: random_accession_def chosen_def)
qed

lemma draw_random_ok:
  "cache_sound st \<Longrightarrow> no_parameter_key st \<Longrightarrow> accessions (db st) \<noteq> [] \<Longrightarrow>
   \<exists>accs st'. draw_random rnd i k st = (Inr accs, st') \<and> length accs = k
       \<and> acc_name ` set accs \<subseteq> snd ` set (accessions (db st))"
proof (induction k arbitrary: i st)
  case 0
  then show ?case by simp
next
  case (Suc k)
  obtain a st1 where r: "random_accession st (rnd i) = (Inr a, st1)" and d: "db st1 = db st"
    and s1: "cache_sound st1" and n: "acc_name a \<in> snd ` set (accessions (db st))"
    using random_accession_ok [OF Suc.prems] by blast
  have nf1: "no_parameter_key st1" and ne1: "accessions (db st1) \<noteq> []"
    using Suc.prems d by (simp_all add: no_parameter_key_def)
  obtain accs st2 where ds: "draw_random rnd (Suc i) k st1 = (Inr accs, st2)"
    and l: "length accs = k"
    and ns: "acc_name ` set accs \<subseteq> snd ` set (accessions (db st1))"
    using Suc.IH [OF s1 nf1 ne1] by blast
  show ?case
    using r ds l n ns d by simp
qed

lemma more_draws_than_names:
  assumes "set xs \<subseteq> set ys" and "length ys < length xs"
  shows "\<not> distinct xs"
proof
  assume "distinct xs"
  then have "length xs = card (set xs)"
    by (simp add: distinct_card)
  also have "\<dots> \<le> card (set ys)"
    using assms(1) by (simp add: card_mono)
  also have "\<dots> \<le> length ys"
    by (rule card_length)
  finally show False
    using assms(2) by simp
qed

text \<open>
  Claim C5 as stated fails for the population of size zero: on the empty catalog the call
  with \<^verbatim>\<open>replace=True\<close> returns its generator, and the first draw raises
  \<^verbatim>\<open>TypeError\<close>, because \<^verbatim>\<open>fetchone()\<close> returns \<^verbatim>\<open>None\<close>.
\<close>

theorem sampling_empty_catalog:
  "random_accessions new_cohort 1 True id = Inr (DrawRandom 1)
   \<and> fst (consume (\<lambda>i. 0) (DrawRandom 1) new_cohort)
       = Inl (TypeError ''NoneType object is not subscriptable'')"
  by (simp add: random_accessions_def consume_def random_accession_def catalog_defs)

text \<open>
  Claim C5, amended. Without replacement the call raises \<^verbatim>\<open>ValueError\<close> whenever
  \<open>n\<close> exceeds the number of accessions. With replacement the call returns its generator
  for every \<open>n\<close>; on a catalog that is not empty, whose memo table holds identities of
  stored accessions only and whose metadata keys are no parameters of the constructor
  (\<^verbatim>\<open>self\<close>, \<^verbatim>\<open>name\<close>, \<^verbatim>\<open>files\<close>), consuming the
  generator raises nothing and yields \<open>n\<close> accessions (none for a negative \<open>n\<close>), among
  them a repeated one whenever \<open>n\<close> exceeds the number of accessions.
\<close>

theorem sampling_bounds:
  "(len st < n \<longrightarrow>
      random_accessions st n False shuffle =
        Inl (ValueError (''Only '' @ string_of_int (len st)
               @ '' accessions in cohort. Cannot get {n} samples. See replace parameter in help.'')))
   \<and> random_accessions st n True shuffle = Inr (DrawRandom n)
   \<and> (accessions (db st) \<noteq> [] \<and> cache_sound st \<and> no_parameter_key st \<longrightarrow>
        (\<exists>accs st'. consume rnd (DrawRandom n) st = (Inr accs, st')
            \<and> length accs = nat n
            \<and> (len st < n \<longrightarrow> \<not> distinct (map acc_name accs))))"
proof -
  have a: "len st < n \<longrightarrow>
      random_accessions st n False shuffle =
        Inl (ValueError (''Only '' @ string_of_int (len st)
               @ '' accessions in cohort. Cannot get {n} samples. See replace parameter in help.''))"
    by (simp add: random_accessions_def)
  have b: "random_accessions st n True shuffle = Inr (DrawRandom n)"
    by (simp add: random_accessions_def)
  have c: "\<exists>accs st'. consume rnd (DrawRandom n) st = (Inr accs, st')
            \<and> length accs = nat n
            \<and> (len st < n \<longrightarrow> \<not> distinct (map acc_name accs))"
    if h: "accessions (db st) \<noteq> [] \<and> cache_sound st \<and> no_parameter_key st"
  proof -
    obtain accs st' where d: "draw_random rnd 0 (nat n) st = (Inr accs, st')"
      and l: "length accs = nat n"
      and ns: "acc_name ` set accs \<subseteq> snd ` set (accessions (db st))"
      using draw_random_ok [of st rnd 0 "nat n"] h by blast
    have "\<not> distinct (map acc_name accs)" if "len st < n"
    proof (rule more_draws_than_names)
      show "set (map acc_name accs) \<subseteq> set (map snd (accessions (db st)))"
        using ns by simp
      show "length (map snd (accessions (db st))) < length (map acc_name accs)"
        using that l by (simp add: len_def)
    qed
    then show ?thesis
      using d l by (simp add: consume_def)
  qed
  show ?thesis
    using a b c by blast
qed

theorem sampling_bounds_witness:
  "random_accessions catalog_S1_bob 2 False id =
     Inl (ValueError (''Only '' @ string_of_int (len catalog_S1_bob)
            @ '' accessions in cohort. Cannot get {n} samples. See replace parameter in help.''))
   \<and> random_accessions catalog_S1_bob 2 True id = Inr (DrawRandom 2)
   \<and> (\<exists>accs st'. consume (\<lambda>i. 0) (DrawRandom 2) catalog_S1_bob = (Inr accs, st')
          \<and> length accs = nat 2 \<and> \<not> distinct (map acc_name accs))"
proof -
  have h1: "len catalog_S1_bob < 2"
    by (simp add: len_def catalog_defs)
  have h2: "accessions (db catalog_S1_bob) \<noteq> [] \<and> cache_sound catalog_S1_bob
              \<and> no_parameter_key catalog_S1_bob"
    by (simp add: cache_sound_def no_parameter_key_def Accession_parameters_def catalog_defs)
  show ?thesis
    using sampling_bounds [of catalog_S1_bob 2 id "\<lambda>i. 0"] h1 h2 by blast
qed

end
